theory Spec2Isabelle
  imports Main
begin

section \<open>The ground-control backend (backend/app.py)\<close>

text \<open>
  The backend is a Flask application with three handlers, \<open>connect_drone\<close>,
  \<open>disconnect_drone\<close> and \<open>get_status\<close>, over two module-level globals: \<open>vehicle\<close>
  (\<open>None\<close> or the object returned by DroneKit's \<open>connect\<close>) and \<open>connection_string\<close>.
  Each handler is modelled as a function from the globals to the effects it performs
  (log records, calls into the driver), the globals afterwards and its result.

  DroneKit itself is not part of the repository. It enters as a parameter, the record
  \<open>driver\<close>, which says for one handler call what each call into the library does: return
  a value, return \<open>None\<close>, or raise.
\<close>

subsection \<open>Python values, exceptions, responses\<close>

text \<open>
  The handlers distinguish three classes of exception, in the order of the \<open>except\<close>
  clauses of \<open>connect_drone\<close>: \<open>APIException\<close> (DroneKit's), the builtin \<open>TimeoutError\<close>, and
  every other subclass of \<open>Exception\<close>. An exception carries the text \<open>str(e)\<close> that the
  handlers interpolate into messages. Exceptions outside \<open>Exception\<close> (\<open>KeyboardInterrupt\<close>,
  \<open>SystemExit\<close>) are not failures of the driver and are not modelled.
\<close>

datatype exn_class = APIException | TimeoutError | OtherException

datatype exn = Exn exn_class string

fun str_exn :: "exn \<Rightarrow> string" where
  "str_exn (Exn c m) = m"

text \<open>
  The Python values the handlers build: the dictionaries handed to \<open>jsonify\<close> and the
  values interpolated into log messages. Telemetry numbers are floats that the code only
  passes on, so their type \<open>'n\<close> is left open.
\<close>

datatype 'n pyval =
    PNone
  | PBool bool
  | PStr string
  | PNum 'n
  | PDict "(string \<times> 'n pyval) list"

text \<open>A response is the body given to \<open>jsonify\<close> and the HTTP status code.\<close>

type_synonym 'n response = "'n pyval \<times> nat"

definition jsonify :: "'n pyval \<Rightarrow> 'n response" where
  "jsonify body = (body, 200)"

definition success_message :: "string \<Rightarrow> 'n response" where
  "success_message m = jsonify (PDict [(''status'', PStr ''success''), (''message'', PStr m)])"

definition error_message :: "string \<Rightarrow> 'n response" where
  "error_message m = (PDict [(''status'', PStr ''error''), (''message'', PStr m)], 500)"

definition success_data :: "'n pyval \<Rightarrow> 'n response" where
  "success_data d = jsonify (PDict [(''status'', PStr ''success''), (''data'', d)])"

subsection \<open>Effects\<close>

text \<open>
  A log record is its level and the pieces of the f-string in order (literal text as
  \<open>PStr\<close>, interpolated values as they are). A call into the driver is recorded with its
  arguments: \<open>connect(address, wait_ready=..., timeout=...)\<close> and \<open>vehicle.close()\<close>.
\<close>

datatype level = INFO | ERROR

type_synonym handle = nat

datatype 'n effect =
    Log level "'n pyval list"
  | DriverConnect string bool nat
  | DriverClose handle

subsection \<open>The driver\<close>

text \<open>
  A vehicle object is known to the backend only through its identity (\<open>handle\<close>) and
  through what its attributes give when read. An object of the library is truthy, so
  \<open>if vehicle:\<close>, \<open>if vehicle.battery\<close> and \<open>if vehicle.location.global_relative_frame\<close> test
  for \<open>None\<close>. Reading the same attribute twice within one handler call gives the same
  outcome.
\<close>

record 'n frame =
  lat :: "'n option"
  lon :: "'n option"
  alt :: "'n option"

record 'n battery_info =
  voltage :: "'n option"

record 'n driver =
  connect :: "string \<Rightarrow> bool \<Rightarrow> nat \<Rightarrow> exn + handle option"
  close :: "handle \<Rightarrow> exn option"
  mode :: "handle \<Rightarrow> exn + string option"
  armed :: "handle \<Rightarrow> exn + bool option"
  global_relative_frame :: "handle \<Rightarrow> exn + 'n frame option"
  airspeed :: "handle \<Rightarrow> exn + 'n option"
  groundspeed :: "handle \<Rightarrow> exn + 'n option"
  heading :: "handle \<Rightarrow> exn + 'n option"
  battery :: "handle \<Rightarrow> exn + 'n battery_info option"

text \<open>
  \<open>mode drv v\<close> is the read \<open>vehicle.mode\<close>: it raises, gives \<open>None\<close>, or gives a
  \<open>VehicleMode\<close>, represented by its \<open>name\<close>. \<open>close drv v\<close> is \<open>None\<close> when \<open>vehicle.close()\<close>
  returns and \<open>Some e\<close> when it raises \<open>e\<close>.
\<close>

definition attribute_error :: "string \<Rightarrow> exn" where
  "attribute_error a =
     Exn OtherException ([CHR 0x27] @ ''NoneType' object has no attribute '' @ [CHR 0x27] @ a @ [CHR 0x27])"

fun bind_exn :: "exn + 'a \<Rightarrow> ('a \<Rightarrow> exn + 'b) \<Rightarrow> exn + 'b" where
  "bind_exn (Inl e) f = Inl e"
| "bind_exn (Inr x) f = f x"

text \<open>\<open>vehicle.mode.name\<close>: the attribute \<open>name\<close> of \<open>None\<close> raises \<open>AttributeError\<close>.\<close>

definition mode_name :: "'n driver \<Rightarrow> handle \<Rightarrow> exn + string" where
  "mode_name drv v =
     bind_exn (mode drv v)
       (\<lambda>m. case m of None \<Rightarrow> Inl (attribute_error ''name'') | Some n \<Rightarrow> Inr n)"

fun py_bool :: "bool option \<Rightarrow> 'n pyval" where
  "py_bool None = PNone"
| "py_bool (Some b) = PBool b"

fun py_num :: "'n option \<Rightarrow> 'n pyval" where
  "py_num None = PNone"
| "py_num (Some x) = PNum x"

text \<open>
  \<open>vehicle.location.global_relative_frame.f if vehicle.location.global_relative_frame
  else d\<close>, for a field \<open>f\<close> of the frame and a default \<open>d\<close>.
\<close>

definition frame_field ::
  "'n driver \<Rightarrow> handle \<Rightarrow> ('n frame \<Rightarrow> 'n option) \<Rightarrow> 'n pyval \<Rightarrow> exn + 'n pyval" where
  "frame_field drv v f d =
     bind_exn (global_relative_frame drv v)
       (\<lambda>fr. case fr of None \<Rightarrow> Inr d | Some g \<Rightarrow> Inr (py_num (f g)))"

text \<open>\<open>vehicle.battery.voltage if vehicle.battery else None\<close>.\<close>

definition battery_voltage :: "'n driver \<Rightarrow> handle \<Rightarrow> exn + 'n pyval" where
  "battery_voltage drv v =
     bind_exn (battery drv v)
       (\<lambda>b. case b of None \<Rightarrow> Inr PNone | Some i \<Rightarrow> Inr (py_num (voltage i)))"

subsection \<open>The globals\<close>

record gstate =
  vehicle :: "handle option"
  connection_string :: string

definition init_state :: gstate where
  "init_state = \<lparr>vehicle = None, connection_string = ''udp:127.0.0.1:14550''\<rparr>"

text \<open>
  A request is what Flask's \<open>request.json\<close> would give. No handler reads it (the lines of
  \<open>connect_drone\<close> that would are commented out).
\<close>

record 'n request =
  json :: "'n pyval option"

subsection \<open>index\<close>

definition index :: "gstate \<Rightarrow> 'n effect list \<times> gstate \<times> 'n response" where
  "index s = ([], s, jsonify (PDict [(''message'', PStr ''GCS Backend Running!'')]))"

subsection \<open>connect_drone\<close>

text \<open>
  The handler blocks in \<open>connect(...)\<close>, so it is written in two parts that meet at that
  call. \<open>connect_begin\<close> is the code up to the call: the test \<open>if vehicle:\<close>, and otherwise
  the log record and the call \<open>connect(connection_string, wait_ready=True, timeout=60)\<close>,
  whose arguments it returns. It assigns no global.
\<close>

definition connect_begin :: "gstate \<Rightarrow> 'n effect list \<times> ('n response + string \<times> bool \<times> nat)" where
  "connect_begin s =
     (case vehicle s of
        Some v \<Rightarrow>
          ([Log INFO [PStr ''Already connected.'']], Inl (success_message ''Already connected''))
      | None \<Rightarrow>
          ([Log INFO [PStr ''Attempting connection to '', PStr (connection_string s), PStr ''...''],
            DriverConnect (connection_string s) True 60],
           Inr (connection_string s, True, 60)))"

text \<open>
  \<open>connect_try\<close> is the body of the \<open>try\<close> from the moment the call has returned or raised
  (\<open>outcome\<close>): the assignment to \<open>vehicle\<close>, then either the three log records of the
  baseline telemetry and the success response, or the branch for a falsy result. A read
  that raises leaves the \<open>try\<close> with the records logged so far and the assignment done.
\<close>

definition connect_try ::
  "'n driver \<Rightarrow> exn + handle option \<Rightarrow> gstate \<Rightarrow> 'n effect list \<times> gstate \<times> (exn + 'n response)" where
  "connect_try drv outcome s =
     (case outcome of
        Inl e \<Rightarrow> ([], s, Inl e)
      | Inr None \<Rightarrow>
          ([Log ERROR [PStr ''Connection attempt returned None.'']],
           s\<lparr>vehicle := None\<rparr>,
           Inr (error_message ''Failed to connect (vehicle object is None)''))
      | Inr (Some v) \<Rightarrow>
          (let s1 = s\<lparr>vehicle := Some v\<rparr>;
               l1 = [Log INFO [PStr ''Connection Successful!'']]
           in case mode_name drv v of
                Inl e \<Rightarrow> (l1, s1, Inl e)
              | Inr m \<Rightarrow>
                  (let l2 = l1 @ [Log INFO [PStr ''  Mode: '', PStr m]]
                   in case armed drv v of
                        Inl e \<Rightarrow> (l2, s1, Inl e)
                      | Inr a \<Rightarrow>
                          (let l3 = l2 @ [Log INFO [PStr ''  Armed: '', py_bool a]]
                           in case frame_field drv v alt (PStr ''N/A'') of
                                Inl e \<Rightarrow> (l3, s1, Inl e)
                              | Inr h \<Rightarrow>
                                  (l3 @ [Log INFO [PStr ''  Altitude: '', h]], s1,
                                   Inr (success_message ''Connected to Vehicle''))))))"

text \<open>The three \<open>except\<close> clauses, in their order; each sets \<open>vehicle = None\<close>.\<close>

fun connect_except :: "exn \<Rightarrow> gstate \<Rightarrow> 'n effect list \<times> gstate \<times> 'n response" where
  "connect_except (Exn APIException m) s =
     ([Log ERROR [PStr ''DroneKit API Exception: '', PStr m]],
      s\<lparr>vehicle := None\<rparr>,
      error_message (''DroneKit API Error: '' @ m))"
| "connect_except (Exn TimeoutError m) s =
     ([Log ERROR [PStr ''Connection timed out: '', PStr m]],
      s\<lparr>vehicle := None\<rparr>,
      error_message ''Connection timed out after 60 seconds.'')"
| "connect_except (Exn OtherException m) s =
     ([Log ERROR [PStr ''An unexpected error occurred during connection: '', PStr m]],
      s\<lparr>vehicle := None\<rparr>,
      error_message (''Unexpected Error: '' @ m))"

definition connect_finish ::
  "'n driver \<Rightarrow> exn + handle option \<Rightarrow> gstate \<Rightarrow> 'n effect list \<times> gstate \<times> 'n response" where
  "connect_finish drv outcome s =
     (case connect_try drv outcome s of
        (l, s1, Inr r) \<Rightarrow> (l, s1, r)
      | (l, s1, Inl e) \<Rightarrow>
          (case connect_except e s1 of (l', s2, r) \<Rightarrow> (l @ l', s2, r)))"

text \<open>
  \<open>connect_resume\<close> is the handler from where \<open>connect_begin\<close> left it: the response is
  ready, or the call into the driver is made and its outcome handled.
\<close>

definition connect_resume ::
  "'n driver \<Rightarrow> 'n response + string \<times> bool \<times> nat \<Rightarrow> gstate \<Rightarrow>
     'n effect list \<times> gstate \<times> 'n response" where
  "connect_resume drv k s =
     (case k of
        Inl r \<Rightarrow> ([], s, r)
      | Inr (address, wait_ready, timeout) \<Rightarrow>
          connect_finish drv (connect drv address wait_ready timeout) s)"

definition connect_drone ::
  "'n driver \<Rightarrow> 'n request \<Rightarrow> gstate \<Rightarrow> 'n effect list \<times> gstate \<times> 'n response" where
  "connect_drone drv req s =
     (case connect_begin s of
        (l0, k) \<Rightarrow> (case connect_resume drv k s of (l1, s1, r) \<Rightarrow> (l0 @ l1, s1, r)))"

subsection \<open>disconnect_drone\<close>

text \<open>
  \<open>vehicle.close()\<close> stands outside any \<open>try\<close>: when it raises, the exception leaves the
  handler (\<open>Inl\<close>) before \<open>vehicle = None\<close> is reached.
\<close>

definition disconnect_drone ::
  "'n driver \<Rightarrow> gstate \<Rightarrow> 'n effect list \<times> gstate \<times> (exn + 'n response)" where
  "disconnect_drone drv s =
     (case vehicle s of
        Some v \<Rightarrow>
          (case close drv v of
             Some e \<Rightarrow>
               ([Log INFO [PStr ''Closing vehicle connection...''], DriverClose v], s, Inl e)
           | None \<Rightarrow>
               ([Log INFO [PStr ''Closing vehicle connection...''], DriverClose v,
                 Log INFO [PStr ''Vehicle connection closed.'']],
                s\<lparr>vehicle := None\<rparr>,
                Inr (success_message ''Disconnected'')))
      | None \<Rightarrow>
          ([Log INFO [PStr ''No active vehicle connection to disconnect.'']], s,
           Inr (success_message ''Already disconnected'')))"

subsection \<open>get_status\<close>

text \<open>The dictionary \<open>status\<close>; its entries are evaluated in the order written.\<close>

definition status_dict :: "'n driver \<Rightarrow> handle \<Rightarrow> exn + 'n pyval" where
  "status_dict drv v =
     bind_exn (mode_name drv v) (\<lambda>m.
     bind_exn (armed drv v) (\<lambda>a.
     bind_exn (frame_field drv v lat PNone) (\<lambda>la.
     bind_exn (frame_field drv v lon PNone) (\<lambda>lo.
     bind_exn (frame_field drv v alt PNone) (\<lambda>al.
     bind_exn (airspeed drv v) (\<lambda>asp.
     bind_exn (groundspeed drv v) (\<lambda>gs.
     bind_exn (heading drv v) (\<lambda>hdg.
     bind_exn (battery_voltage drv v) (\<lambda>bv.
       Inr (PDict
         [(''is_connected'', PBool True),
          (''mode'', PStr m),
          (''armed'', py_bool a),
          (''lat'', la),
          (''lon'', lo),
          (''alt'', al),
          (''airspeed'', py_num asp),
          (''groundspeed'', py_num gs),
          (''heading'', py_num hdg),
          (''battery_voltage'', bv)]))))))))))"

text \<open>\<open>get_status\<close> only reads \<open>vehicle\<close>; it has no \<open>global\<close> declaration and assigns nothing.\<close>

definition get_status :: "'n driver \<Rightarrow> gstate \<Rightarrow> 'n effect list \<times> gstate \<times> 'n response" where
  "get_status drv s =
     (case vehicle s of
        Some v \<Rightarrow>
          (case status_dict drv v of
             Inr status \<Rightarrow> ([], s, success_data status)
           | Inl e \<Rightarrow>
               ([Log ERROR [PStr ''Error fetching status: '', PStr (str_exn e)]], s,
                error_message (''Error fetching status: '' @ str_exn e)))
      | None \<Rightarrow> ([], s, success_data (PDict [(''is_connected'', PBool False)])))"

subsection \<open>Sequences of requests\<close>

text \<open>
  One request is served by one handler, with the driver behaving as \<open>drv\<close> while it runs.
  An exception that leaves a handler is answered by Flask; the globals stay as the handler
  left them and the server goes on.
\<close>

datatype 'n call = Index | Connect "'n request" | Disconnect | Status

fun step ::
  "'n driver \<Rightarrow> 'n call \<Rightarrow> gstate \<Rightarrow> 'n effect list \<times> gstate \<times> (exn + 'n response)" where
  "step drv Index s = (case index s of (l, s', r) \<Rightarrow> (l, s', Inr r))"
| "step drv (Connect req) s = (case connect_drone drv req s of (l, s', r) \<Rightarrow> (l, s', Inr r))"
| "step drv Disconnect s = disconnect_drone drv s"
| "step drv Status s = (case get_status drv s of (l, s', r) \<Rightarrow> (l, s', Inr r))"

fun run :: "('n driver \<times> 'n call) list \<Rightarrow> gstate \<Rightarrow> 'n effect list \<times> gstate" where
  "run [] s = ([], s)"
| "run ((drv, c) # cs) s =
     (case step drv c s of (l, s', r) \<Rightarrow> (case run cs s' of (l', s'') \<Rightarrow> (l @ l', s'')))"

text \<open>The calls \<open>connect(...)\<close> among the effects.\<close>

fun is_connect_call :: "'n effect \<Rightarrow> bool" where
  "is_connect_call (DriverConnect address wait_ready timeout) = True"
| "is_connect_call (Log lv m) = False"
| "is_connect_call (DriverClose v) = False"

subsection \<open>Two connect requests at once\<close>

text \<open>
  Flask may serve two requests in two threads, and \<open>connect_drone\<close> holds no lock: while
  one request is blocked in \<open>connect(...)\<close>, or between any two of its lines, the other may
  run. What one request can see of the other is the global \<open>vehicle\<close>, so the handler is
  cut into steps that each hold one read or one assignment of it; what a request does
  between two of them (logging, reading the attributes of the object it found, leaving
  through an exception) touches nothing shared and goes with the step before.

  A request is at one of these places: before the test at line 35; blocked in the call at
  line 47, whose arguments are evaluated; before the test at line 49, \<open>vehicle\<close> assigned;
  before the reads of \<open>vehicle\<close> in lines 51, 52 and 53 (line 53 reads it twice, for the
  condition and for the value); before \<open>vehicle = None\<close> at line 57; in an \<open>except\<close>
  clause, before its \<open>vehicle = None\<close>; or it has returned its response.
\<close>

datatype 'n pc =
    At35
  | In47 "string \<times> bool \<times> nat"
  | At49
  | At51
  | At52
  | At53
  | At53_value
  | At57
  | InExcept exn
  | Done "'n response"

text \<open>
  One step of a request, on the globals as they are then. After line 47 the code names
  the global \<open>vehicle\<close> again in every line, not the object \<open>connect(...)\<close> returned: each
  step reads the global, and an attribute read on \<open>None\<close> raises \<open>AttributeError\<close>.
\<close>

fun thread_step :: "'n driver \<Rightarrow> 'n pc \<Rightarrow> gstate \<Rightarrow> 'n effect list \<times> gstate \<times> 'n pc" where
  "thread_step drv At35 s =
     (case connect_begin s of
        (l, Inl r) \<Rightarrow> (l, s, Done r)
      | (l, Inr args) \<Rightarrow> (l, s, In47 args))"
| "thread_step drv (In47 (address, wait_ready, timeout)) s =
     (case connect drv address wait_ready timeout of
        Inl e \<Rightarrow> ([], s, InExcept e)
      | Inr x \<Rightarrow> ([], s\<lparr>vehicle := x\<rparr>, At49))"
| "thread_step drv At49 s =
     (case vehicle s of
        Some v \<Rightarrow> ([Log INFO [PStr ''Connection Successful!'']], s, At51)
      | None \<Rightarrow> ([Log ERROR [PStr ''Connection attempt returned None.'']], s, At57))"
| "thread_step drv At57 s =
     ([], s\<lparr>vehicle := None\<rparr>, Done (error_message ''Failed to connect (vehicle object is None)''))"
| "thread_step drv At51 s =
     (case vehicle s of
        None \<Rightarrow> ([], s, InExcept (attribute_error ''mode''))
      | Some v \<Rightarrow>
          (case mode_name drv v of
             Inl e \<Rightarrow> ([], s, InExcept e)
           | Inr m \<Rightarrow> ([Log INFO [PStr ''  Mode: '', PStr m]], s, At52)))"
| "thread_step drv At52 s =
     (case vehicle s of
        None \<Rightarrow> ([], s, InExcept (attribute_error ''armed''))
      | Some v \<Rightarrow>
          (case armed drv v of
             Inl e \<Rightarrow> ([], s, InExcept e)
           | Inr a \<Rightarrow> ([Log INFO [PStr ''  Armed: '', py_bool a]], s, At53)))"
| "thread_step drv At53 s =
     (case vehicle s of
        None \<Rightarrow> ([], s, InExcept (attribute_error ''location''))
      | Some v \<Rightarrow>
          (case global_relative_frame drv v of
             Inl e \<Rightarrow> ([], s, InExcept e)
           | Inr None \<Rightarrow>
               ([Log INFO [PStr ''  Altitude: '', PStr ''N/A'']], s,
                Done (success_message ''Connected to Vehicle''))
           | Inr (Some g) \<Rightarrow> ([], s, At53_value)))"
| "thread_step drv At53_value s =
     (case vehicle s of
        None \<Rightarrow> ([], s, InExcept (attribute_error ''location''))
      | Some v \<Rightarrow>
          (case global_relative_frame drv v of
             Inl e \<Rightarrow> ([], s, InExcept e)
           | Inr None \<Rightarrow> ([], s, InExcept (attribute_error ''alt''))
           | Inr (Some g) \<Rightarrow>
               ([Log INFO [PStr ''  Altitude: '', py_num (alt g)]], s,
                Done (success_message ''Connected to Vehicle''))))"
| "thread_step drv (InExcept e) s =
     (case connect_except e s of (l, s', r) \<Rightarrow> (l, s', Done r))"
| "thread_step drv (Done r) s = ([], s, Done r)"

text \<open>
  Two requests A and B, with the driver behaving as \<open>drvA\<close> for A and as \<open>drvB\<close> for B. A
  configuration is the effects so far, the globals, and where A and B are. A schedule
  says which request takes the next step (\<open>True\<close> for A, \<open>False\<close> for B); every list is a
  schedule, and a request that has returned stays where it is.
\<close>

type_synonym 'n config = "'n effect list \<times> gstate \<times> 'n pc \<times> 'n pc"

fun sched_step :: "'n driver \<Rightarrow> 'n driver \<Rightarrow> bool \<Rightarrow> 'n config \<Rightarrow> 'n config" where
  "sched_step drvA drvB True (l, s, pa, pb) =
     (case thread_step drvA pa s of (l', s', pa') \<Rightarrow> (l @ l', s', pa', pb))"
| "sched_step drvA drvB False (l, s, pa, pb) =
     (case thread_step drvB pb s of (l', s', pb') \<Rightarrow> (l @ l', s', pa, pb'))"

fun run_schedule :: "'n driver \<Rightarrow> 'n driver \<Rightarrow> bool list \<Rightarrow> 'n config \<Rightarrow> 'n config" where
  "run_schedule drvA drvB [] c = c"
| "run_schedule drvA drvB (t # ts) c = run_schedule drvA drvB ts (sched_step drvA drvB t c)"

subsection \<open>Example drivers\<close>

text \<open>
  A simulator that answers: \<open>connect\<close> returns the vehicle \<open>1\<close>, every attribute is
  available, \<open>close\<close> returns.
\<close>

definition sitl_driver :: "int driver" where
  "sitl_driver =
     \<lparr>connect = (\<lambda>address wait_ready timeout. Inr (Some 1)),
      close = (\<lambda>v. None),
      mode = (\<lambda>v. Inr (Some ''GUIDED'')),
      armed = (\<lambda>v. Inr (Some False)),
      global_relative_frame = (\<lambda>v. Inr (Some \<lparr>lat = Some (-35), lon = Some 149, alt = Some 0\<rparr>)),
      airspeed = (\<lambda>v. Inr (Some 0)),
      groundspeed = (\<lambda>v. Inr (Some 0)),
      heading = (\<lambda>v. Inr (Some 353)),
      battery = (\<lambda>v. Inr (Some \<lparr>voltage = Some 12\<rparr>))\<rparr>"

definition connected_state :: gstate where
  "connected_state = init_state\<lparr>vehicle := Some 1\<rparr>"

definition empty_request :: "int request" where
  "empty_request = \<lparr>json = None\<rparr>"

text \<open>Variations of it: one read or call behaves differently, the rest as above.\<close>

definition close_fails_driver :: "int driver" where
  "close_fails_driver = sitl_driver\<lparr>close := (\<lambda>v. Some (Exn OtherException ''Connection reset by peer''))\<rparr>"

definition timeout_driver :: "int driver" where
  "timeout_driver = sitl_driver\<lparr>connect := (\<lambda>address wait_ready timeout. Inl (Exn TimeoutError ''timed out''))\<rparr>"

definition api_error_driver :: "int driver" where
  "api_error_driver =
     sitl_driver\<lparr>connect := (\<lambda>address wait_ready timeout. Inl (Exn APIException ''No heartbeat''))\<rparr>"

definition refused_driver :: "int driver" where
  "refused_driver =
     sitl_driver\<lparr>connect := (\<lambda>address wait_ready timeout. Inl (Exn OtherException ''Connection refused''))\<rparr>"

definition null_driver :: "int driver" where
  "null_driver = sitl_driver\<lparr>connect := (\<lambda>address wait_ready timeout. Inr None)\<rparr>"

definition armed_fails_driver :: "int driver" where
  "armed_fails_driver = sitl_driver\<lparr>armed := (\<lambda>v. Inl (Exn APIException ''No heartbeat''))\<rparr>"

definition no_mode_driver :: "int driver" where
  "no_mode_driver = sitl_driver\<lparr>mode := (\<lambda>v. Inr None)\<rparr>"

definition no_gps_driver :: "int driver" where
  "no_gps_driver =
     sitl_driver\<lparr>global_relative_frame := (\<lambda>v. Inr None),
                 airspeed := (\<lambda>v. Inr None),
                 battery := (\<lambda>v. Inr None)\<rparr>"

definition link_lost_driver :: "int driver" where
  "link_lost_driver = sitl_driver\<lparr>airspeed := (\<lambda>v. Inl (Exn OtherException ''link lost''))\<rparr>"


definition malformed_request :: "int request" where
  "malformed_request =
     \<lparr>json = Some (PDict [(''connection_string'', PStr ''not-a-valid-address''),
                          (''timeout'', PNum 1000)])\<rparr>"

section \<open>Properties\<close>

subsection \<open>Connect while connected\<close>

text \<open>
  C5. When a vehicle is held, \<open>connect_drone\<close> answers "Already connected" with status 200,
  logs that one record and does nothing else: it makes no call into the driver, so no
  second session is opened, and the globals are as before.
\<close>

theorem connect_already_connected:
  assumes "vehicle s = Some v"
  shows "connect_drone drv req s =
           ([Log INFO [PStr ''Already connected.'']], s, success_message ''Already connected'') \<and>
         DriverConnect a w t \<notin> set (fst (connect_drone drv req s))"
  using assms by (simp add: connect_drone_def connect_begin_def connect_resume_def)

theorem connect_already_connected_witness:
  "vehicle connected_state = Some 1 \<and>
   connect_drone sitl_driver empty_request connected_state =
     ([Log INFO [PStr ''Already connected.'']], connected_state,
      (PDict [(''status'', PStr ''success''), (''message'', PStr ''Already connected'')], 200))"
proof -
  have h: "vehicle connected_state = Some 1"
    by (simp add: connected_state_def)
  from connect_already_connected [OF h, of sitl_driver empty_request] h
  show ?thesis by (simp add: success_message_def jsonify_def)
qed

subsection \<open>Disconnect\<close>

lemma disconnect_not_connected:
  "vehicle s = None \<Longrightarrow>
   disconnect_drone drv s =
     ([Log INFO [PStr ''No active vehicle connection to disconnect.'']], s,
      Inr (success_message ''Already disconnected''))"
  by (simp add: disconnect_drone_def)

lemma disconnect_close_returns:
  "vehicle s = Some v \<Longrightarrow> close drv v = None \<Longrightarrow>
   disconnect_drone drv s =
     ([Log INFO [PStr ''Closing vehicle connection...''], DriverClose v,
       Log INFO [PStr ''Vehicle connection closed.'']],
      s\<lparr>vehicle := None\<rparr>, Inr (success_message ''Disconnected''))"
  by (simp add: disconnect_drone_def)

lemma disconnect_close_raises:
  "vehicle s = Some v \<Longrightarrow> close drv v = Some e \<Longrightarrow>
   disconnect_drone drv s =
     ([Log INFO [PStr ''Closing vehicle connection...''], DriverClose v], s, Inl e)"
  by (simp add: disconnect_drone_def)

lemma disconnect_returns_then_cleared:
  assumes "disconnect_drone drv s = (l, s', Inr r)"
  shows "vehicle s' = None"
proof (cases "vehicle s")
  case None
  with assms show ?thesis by (simp add: disconnect_drone_def)
next
  case (Some v)
  with assms show ?thesis
    by (cases "close drv v") (auto simp: disconnect_drone_def)
qed

text \<open>
  C1, as the claim states it, fails: with a vehicle held whose \<open>close()\<close> raises, the
  exception leaves \<open>disconnect_drone\<close> and the vehicle is still held afterwards.
\<close>

theorem disconnect_close_failure_surfaces:
  "disconnect_drone close_fails_driver connected_state =
     ([Log INFO [PStr ''Closing vehicle connection...''], DriverClose 1],
      connected_state,
      Inl (Exn OtherException ''Connection reset by peer'')) \<and>
   vehicle connected_state = Some 1"
  by (simp add: disconnect_drone_def close_fails_driver_def sitl_driver_def connected_state_def)

text \<open>
  C1, amended. \<open>disconnect_drone\<close> has three outcomes. With no vehicle held it changes
  nothing and answers "Already disconnected". With a vehicle held whose \<open>close()\<close> returns,
  it calls \<open>close()\<close> once, sets \<open>vehicle = None\<close> and answers "Disconnected". With a vehicle
  held whose \<open>close()\<close> raises, the exception reaches the caller and the vehicle stays held.
\<close>

theorem disconnect_outcomes:
  "(vehicle s = None \<longrightarrow>
      disconnect_drone drv s =
        ([Log INFO [PStr ''No active vehicle connection to disconnect.'']], s,
         Inr (success_message ''Already disconnected''))) \<and>
   (vehicle s = Some v \<and> close drv v = None \<longrightarrow>
      disconnect_drone drv s =
        ([Log INFO [PStr ''Closing vehicle connection...''], DriverClose v,
          Log INFO [PStr ''Vehicle connection closed.'']],
         s\<lparr>vehicle := None\<rparr>, Inr (success_message ''Disconnected'')) \<and>
      vehicle (fst (snd (disconnect_drone drv s))) = None) \<and>
   (vehicle s = Some v \<and> close drv v = Some e \<longrightarrow>
      disconnect_drone drv s =
        ([Log INFO [PStr ''Closing vehicle connection...''], DriverClose v], s, Inl e))"
  by (simp add: disconnect_not_connected disconnect_close_returns disconnect_close_raises)

theorem disconnect_outcomes_witness:
  "disconnect_drone sitl_driver init_state =
     ([Log INFO [PStr ''No active vehicle connection to disconnect.'']], init_state,
      Inr (success_message ''Already disconnected'')) \<and>
   disconnect_drone sitl_driver connected_state =
     ([Log INFO [PStr ''Closing vehicle connection...''], DriverClose 1,
       Log INFO [PStr ''Vehicle connection closed.'']],
      init_state, Inr (success_message ''Disconnected'')) \<and>
   disconnect_drone close_fails_driver connected_state =
     ([Log INFO [PStr ''Closing vehicle connection...''], DriverClose 1], connected_state,
      Inl (Exn OtherException ''Connection reset by peer''))"
proof -
  have a: "vehicle init_state = None"
    by (simp add: init_state_def)
  have b: "vehicle connected_state = Some 1 \<and> close sitl_driver 1 = None"
    by (simp add: connected_state_def sitl_driver_def)
  have c: "vehicle connected_state = Some 1 \<and>
           close close_fails_driver 1 = Some (Exn OtherException ''Connection reset by peer'')"
    by (simp add: connected_state_def close_fails_driver_def)
  have d: "connected_state\<lparr>vehicle := None\<rparr> = init_state"
    by (simp add: connected_state_def init_state_def)
  from disconnect_outcomes [of init_state sitl_driver 1 undefined] a
  have 1: "disconnect_drone sitl_driver init_state =
     ([Log INFO [PStr ''No active vehicle connection to disconnect.'']], init_state,
      Inr (success_message ''Already disconnected''))"
    by simp
  from disconnect_outcomes [of connected_state sitl_driver 1 undefined] b d
  have 2: "disconnect_drone sitl_driver connected_state =
     ([Log INFO [PStr ''Closing vehicle connection...''], DriverClose 1,
       Log INFO [PStr ''Vehicle connection closed.'']],
      init_state, Inr (success_message ''Disconnected''))"
    by simp
  from disconnect_outcomes
         [of connected_state close_fails_driver 1 "Exn OtherException ''Connection reset by peer''"] c
  have 3: "disconnect_drone close_fails_driver connected_state =
     ([Log INFO [PStr ''Closing vehicle connection...''], DriverClose 1], connected_state,
      Inl (Exn OtherException ''Connection reset by peer''))"
    by simp
  from 1 2 3 show ?thesis by simp
qed

text \<open>
  C6, as the claim states it, fails: when \<open>close()\<close> raises in the first call, the vehicle
  is still held, and the second call closes it again instead of answering
  "Already disconnected"; here \<open>close()\<close> raises again and the second call ends in the
  exception too.
\<close>

theorem disconnect_twice_after_close_failure:
  "disconnect_drone close_fails_driver
     (fst (snd (disconnect_drone close_fails_driver connected_state))) =
     ([Log INFO [PStr ''Closing vehicle connection...''], DriverClose 1],
      connected_state,
      Inl (Exn OtherException ''Connection reset by peer''))"
  by (simp add: disconnect_drone_def close_fails_driver_def sitl_driver_def connected_state_def)

text \<open>
  C6, amended. When a call of \<open>disconnect_drone\<close> returns a response (from any state, its
  \<open>close()\<close> not raising), the next call, whatever the driver does then, makes no call
  into the driver, answers "Already disconnected" and leaves \<open>vehicle = None\<close>.
\<close>

theorem disconnect_twice:
  assumes "disconnect_drone drv s = (l, s', Inr r)"
  shows "disconnect_drone drv' s' =
           ([Log INFO [PStr ''No active vehicle connection to disconnect.'']], s',
            Inr (success_message ''Already disconnected'')) \<and>
         vehicle (fst (snd (disconnect_drone drv' s'))) = None"
proof -
  from assms have "vehicle s' = None"
    by (rule disconnect_returns_then_cleared)
  then show ?thesis
    by (simp add: disconnect_not_connected)
qed

theorem disconnect_twice_witness:
  "disconnect_drone sitl_driver connected_state =
     ([Log INFO [PStr ''Closing vehicle connection...''], DriverClose 1,
       Log INFO [PStr ''Vehicle connection closed.'']],
      init_state, Inr (success_message ''Disconnected'')) \<and>
   disconnect_drone close_fails_driver init_state =
     ([Log INFO [PStr ''No active vehicle connection to disconnect.'']], init_state,
      Inr (success_message ''Already disconnected''))"
proof -
  have h: "disconnect_drone sitl_driver connected_state =
     ([Log INFO [PStr ''Closing vehicle connection...''], DriverClose 1,
       Log INFO [PStr ''Vehicle connection closed.'']],
      init_state, Inr (success_message ''Disconnected''))"
    by (simp add: disconnect_drone_def sitl_driver_def connected_state_def init_state_def)
  from disconnect_twice [OF h, of close_fails_driver] h show ?thesis
    by simp
qed

subsection \<open>Failures of connect\<close>

lemma connect_except_result:
  "\<exists>l m. connect_except e s = (l, s\<lparr>vehicle := None\<rparr>, error_message m)"
  by (cases "(e, s)" rule: connect_except.cases) auto

lemma connect_try_result:
  "(\<exists>l v. outcome = Inr (Some v) \<and>
       connect_try drv outcome s =
         (l, s\<lparr>vehicle := Some v\<rparr>, Inr (success_message ''Connected to Vehicle''))) \<or>
   (\<exists>l. connect_try drv outcome s =
         (l, s\<lparr>vehicle := None\<rparr>, Inr (error_message ''Failed to connect (vehicle object is None)''))) \<or>
   (\<exists>l s' e. connect_try drv outcome s = (l, s', Inl e))"
  by (auto simp: connect_try_def Let_def split: sum.splits option.splits)

lemma connect_try_raised_state:
  "connect_try drv outcome s = (l, s', Inl e) \<Longrightarrow> s'\<lparr>vehicle := None\<rparr> = s\<lparr>vehicle := None\<rparr>"
  by (auto simp: connect_try_def Let_def split: sum.splits option.splits)

lemma connect_finish_result:
  "(\<exists>l v. outcome = Inr (Some v) \<and>
       connect_finish (drv :: 'n driver) outcome s =
         (l, s\<lparr>vehicle := Some v\<rparr>, success_message ''Connected to Vehicle'')) \<or>
   (\<exists>l m. connect_finish drv outcome s = (l, s\<lparr>vehicle := None\<rparr>, error_message m))"
proof -
  obtain l s' r where t: "connect_try drv outcome s = (l, s', r)"
    by (cases "connect_try drv outcome s") auto
  show ?thesis
  proof (cases r)
    case (Inr resp)
    with t connect_try_result [of outcome drv s] show ?thesis
      by (auto simp: connect_finish_def)
  next
    case (Inl e)
    from t Inl have s': "s'\<lparr>vehicle := None\<rparr> = s\<lparr>vehicle := None\<rparr>"
      by (simp add: connect_try_raised_state)
    from connect_except_result [of e s'] obtain l' :: "'n effect list" and m where
      "connect_except e s' = (l', s'\<lparr>vehicle := None\<rparr>, error_message m)" by blast
    with s' have ce: "connect_except e s' = (l', s\<lparr>vehicle := None\<rparr>, error_message m)"
      by simp
    have "connect_finish drv outcome s = (l @ l', s\<lparr>vehicle := None\<rparr>, error_message m)"
      unfolding connect_finish_def t Inl by (simp add: ce)
    then show ?thesis by blast
  qed
qed

lemma connect_drone_not_connected:
  "vehicle s = None \<Longrightarrow>
   connect_drone drv req s =
     (case connect_finish drv (connect drv (connection_string s) True 60) s of
        (l1, s1, r) \<Rightarrow>
          ([Log INFO [PStr ''Attempting connection to '', PStr (connection_string s), PStr ''...''],
            DriverConnect (connection_string s) True 60] @ l1, s1, r))"
  by (simp add: connect_drone_def connect_begin_def connect_resume_def)

lemma connect_finish_raised:
  "connect_finish drv (Inl e) s = connect_except e s"
  by (simp add: connect_finish_def connect_try_def split: prod.splits)

lemma connect_finish_none:
  "connect_finish drv (Inr None) s =
     ([Log ERROR [PStr ''Connection attempt returned None.'']], s\<lparr>vehicle := None\<rparr>,
      error_message ''Failed to connect (vehicle object is None)'')"
  by (simp add: connect_finish_def connect_try_def)

lemma success_not_error: "success_message m \<noteq> error_message m'"
  by (simp add: success_message_def error_message_def jsonify_def)

lemma connect_except_no_call:
  "e' \<in> set (fst (connect_except e s)) \<Longrightarrow> \<not> is_connect_call e'"
  by (cases "(e, s)" rule: connect_except.cases) auto

lemma connect_try_no_call:
  "e' \<in> set (fst (connect_try drv outcome s)) \<Longrightarrow> \<not> is_connect_call e'"
  by (auto simp: connect_try_def Let_def split: sum.splits option.splits)

lemma connect_finish_no_call:
  "e' \<in> set (fst (connect_finish drv outcome s)) \<Longrightarrow> \<not> is_connect_call e'"
proof -
  assume a: "e' \<in> set (fst (connect_finish drv outcome s))"
  obtain l s' r where t: "connect_try drv outcome s = (l, s', r)"
    by (cases "connect_try drv outcome s") auto
  show ?thesis
  proof (cases r)
    case (Inr resp)
    with a t connect_try_no_call [of e' drv outcome s] show ?thesis
      by (simp add: connect_finish_def)
  next
    case (Inl e)
    with a t connect_try_no_call [of e' drv outcome s] connect_except_no_call [of e' e s']
    show ?thesis
      by (auto simp: connect_finish_def split: prod.splits)
  qed
qed

lemma connect_finish_filter:
  "filter is_connect_call (fst (connect_finish drv outcome s)) = []"
  by (simp add: filter_empty_conv connect_finish_no_call)

lemma connect_finish_read_raises:
  assumes "mode_name drv v = Inl e \<or>
           (mode_name drv v = Inr n \<and>
              (armed drv v = Inl e \<or>
               (armed drv v = Inr a \<and> global_relative_frame drv v = Inl e)))"
  shows "snd (connect_finish drv (Inr (Some v)) s) = snd (connect_except e s)"
  using assms
  by (cases "connect_except e (s\<lparr>vehicle := Some v\<rparr>) :: 'a effect list \<times> gstate \<times> 'a response";
      cases "(e, s)" rule: connect_except.cases)
     (auto simp: connect_finish_def connect_try_def frame_field_def Let_def)

text \<open>
  C2, as the claim states it, fails: after a connect attempt that timed out, the globals
  are the initial ones again. Nothing distinguishes a state after a failure from the
  state in which no attempt was ever made.
\<close>

theorem connect_timeout_leaves_initial_state:
  "connect_drone timeout_driver empty_request init_state =
     ([Log INFO [PStr ''Attempting connection to '', PStr ''udp:127.0.0.1:14550'', PStr ''...''],
       DriverConnect ''udp:127.0.0.1:14550'' True 60,
       Log ERROR [PStr ''Connection timed out: '', PStr ''timed out'']],
      init_state,
      error_message ''Connection timed out after 60 seconds.'')"
  by (simp add: connect_drone_def connect_begin_def connect_resume_def connect_finish_def
      connect_try_def timeout_driver_def sitl_driver_def init_state_def)

text \<open>
  C2, amended. From a state with no vehicle held, a failed \<open>connect_drone\<close> answers with
  an error response (status 500) whose message tells the kind of failure. An exception is
  classified by its class, whether \<open>connect(...)\<close> raised it or a read of the baseline
  telemetry (mode name, armed flag, relative frame) raised it after the session was
  opened: "DroneKit API Error: ..." for an \<open>APIException\<close>, "Connection timed out after 60
  seconds." for the builtin \<open>TimeoutError\<close>, "Unexpected Error: ..." for any other
  exception, among them the \<open>AttributeError\<close> of a mode that is \<open>None\<close>. A falsy result of
  \<open>connect(...)\<close> gives "Failed to connect (vehicle object is None)". Whenever the
  response is not the success response, the globals are exactly those before the call,
  with \<open>vehicle = None\<close>: the code keeps no failed state and no last error.
\<close>

theorem connect_failure_outcomes:
  assumes "vehicle s = None"
  shows
    "(connect drv (connection_string s) True 60 = Inl (Exn APIException m) \<longrightarrow>
        snd (connect_drone drv req s) = (s, error_message (''DroneKit API Error: '' @ m))) \<and>
     (connect drv (connection_string s) True 60 = Inl (Exn TimeoutError m) \<longrightarrow>
        snd (connect_drone drv req s) = (s, error_message ''Connection timed out after 60 seconds.'')) \<and>
     (connect drv (connection_string s) True 60 = Inl (Exn OtherException m) \<longrightarrow>
        snd (connect_drone drv req s) = (s, error_message (''Unexpected Error: '' @ m))) \<and>
     (connect drv (connection_string s) True 60 = Inr None \<longrightarrow>
        snd (connect_drone drv req s) =
          (s, error_message ''Failed to connect (vehicle object is None)'')) \<and>
     (connect drv (connection_string s) True 60 = Inr (Some v) \<and>
      (mode_name drv v = Inl e \<or>
       (mode_name drv v = Inr n \<and>
          (armed drv v = Inl e \<or>
           (armed drv v = Inr a \<and> global_relative_frame drv v = Inl e)))) \<longrightarrow>
        snd (connect_drone drv req s) =
          (s, case e of
                Exn APIException m' \<Rightarrow> error_message (''DroneKit API Error: '' @ m')
              | Exn TimeoutError m' \<Rightarrow> error_message ''Connection timed out after 60 seconds.''
              | Exn OtherException m' \<Rightarrow> error_message (''Unexpected Error: '' @ m'))) \<and>
     (connect drv (connection_string s) True 60 = Inr (Some v) \<and> mode drv v = Inr None \<longrightarrow>
        snd (connect_drone drv req s) =
          (s, error_message (''Unexpected Error: '' @ str_exn (attribute_error ''name'')))) \<and>
     (snd (snd (connect_drone drv req s)) \<noteq> success_message ''Connected to Vehicle'' \<longrightarrow>
        fst (snd (connect_drone drv req s)) = s \<and>
        (\<exists>m'. snd (snd (connect_drone drv req s)) = error_message m'))"
proof -
  let ?o = "connect drv (connection_string s) True 60"
  from assms have same: "s\<lparr>vehicle := None\<rparr> = s" by simp
  have cd: "snd (connect_drone drv req s) = snd (connect_finish drv ?o s)"
    by (simp add: connect_drone_not_connected [OF assms] split: prod.splits)
  have general: "snd (snd (connect_drone drv req s)) \<noteq> success_message ''Connected to Vehicle'' \<longrightarrow>
        fst (snd (connect_drone drv req s)) = s \<and>
        (\<exists>m'. snd (snd (connect_drone drv req s)) = error_message m')"
    using connect_finish_result [of ?o drv s] same
    by (auto simp: connect_drone_not_connected [OF assms])
  have cls: "snd (connect_except e s :: 'a effect list \<times> gstate \<times> 'a response) =
          (s, case e of
                Exn APIException m' \<Rightarrow> error_message (''DroneKit API Error: '' @ m')
              | Exn TimeoutError m' \<Rightarrow> error_message ''Connection timed out after 60 seconds.''
              | Exn OtherException m' \<Rightarrow> error_message (''Unexpected Error: '' @ m'))"
    using same by (cases "(e, s)" rule: connect_except.cases) simp_all
  have reads: "?o = Inr (Some v) \<and>
      (mode_name drv v = Inl e \<or>
       (mode_name drv v = Inr n \<and>
          (armed drv v = Inl e \<or>
           (armed drv v = Inr a \<and> global_relative_frame drv v = Inl e)))) \<longrightarrow>
        snd (connect_drone drv req s) =
          (s, case e of
                Exn APIException m' \<Rightarrow> error_message (''DroneKit API Error: '' @ m')
              | Exn TimeoutError m' \<Rightarrow> error_message ''Connection timed out after 60 seconds.''
              | Exn OtherException m' \<Rightarrow> error_message (''Unexpected Error: '' @ m'))"
    using connect_finish_read_raises [of drv v e n a s] cls
    by (auto simp: cd)
  have nomode: "?o = Inr (Some v) \<and> mode drv v = Inr None \<longrightarrow>
        snd (connect_drone drv req s) =
          (s, error_message (''Unexpected Error: '' @ str_exn (attribute_error ''name'')))"
  proof
    assume h: "?o = Inr (Some v) \<and> mode drv v = Inr None"
    then have "mode_name drv v = Inl (attribute_error ''name'')"
      by (simp add: mode_name_def)
    with connect_finish_read_raises [of drv v "attribute_error ''name''" n a s] h same
    show "snd (connect_drone drv req s) =
          (s, error_message (''Unexpected Error: '' @ str_exn (attribute_error ''name'')))"
      by (simp add: cd attribute_error_def)
  qed
  have first: "(?o = Inl (Exn APIException m) \<longrightarrow>
        snd (connect_drone drv req s) = (s, error_message (''DroneKit API Error: '' @ m))) \<and>
     (?o = Inl (Exn TimeoutError m) \<longrightarrow>
        snd (connect_drone drv req s) = (s, error_message ''Connection timed out after 60 seconds.'')) \<and>
     (?o = Inl (Exn OtherException m) \<longrightarrow>
        snd (connect_drone drv req s) = (s, error_message (''Unexpected Error: '' @ m))) \<and>
     (?o = Inr None \<longrightarrow>
        snd (connect_drone drv req s) =
          (s, error_message ''Failed to connect (vehicle object is None)''))"
    using same
    by (simp add: connect_drone_not_connected [OF assms] connect_finish_raised connect_finish_none)
  from first reads nomode general show ?thesis by blast
qed

text \<open>
  One driver for each kind of failure: a timeout, an error of the library, a refused
  connection, no vehicle returned, an armed flag whose read raises an error of the
  library, and a vehicle without mode.
\<close>

theorem connect_failure_outcomes_witness:
  "vehicle init_state = None \<and>
   snd (connect_drone timeout_driver empty_request init_state) =
     (init_state, error_message ''Connection timed out after 60 seconds.'') \<and>
   snd (connect_drone api_error_driver empty_request init_state) =
     (init_state, error_message ''DroneKit API Error: No heartbeat'') \<and>
   snd (connect_drone refused_driver empty_request init_state) =
     (init_state, error_message ''Unexpected Error: Connection refused'') \<and>
   snd (connect_drone null_driver empty_request init_state) =
     (init_state, error_message ''Failed to connect (vehicle object is None)'') \<and>
   snd (connect_drone armed_fails_driver empty_request init_state) =
     (init_state, error_message ''DroneKit API Error: No heartbeat'') \<and>
   snd (connect_drone no_mode_driver empty_request init_state) =
     (init_state, error_message (''Unexpected Error: '' @ str_exn (attribute_error ''name''))) \<and>
   snd (snd (connect_drone no_mode_driver empty_request init_state)) \<noteq>
     success_message ''Connected to Vehicle'' \<and>
   fst (snd (connect_drone no_mode_driver empty_request init_state)) = init_state"
proof -
  let ?a = "connection_string init_state"
  have a: "vehicle init_state = None"
    by (simp add: init_state_def)
  have t: "connect timeout_driver ?a True 60 = Inl (Exn TimeoutError ''timed out'')"
    by (simp add: timeout_driver_def)
  have p: "connect api_error_driver ?a True 60 = Inl (Exn APIException ''No heartbeat'')"
    by (simp add: api_error_driver_def)
  have r: "connect refused_driver ?a True 60 = Inl (Exn OtherException ''Connection refused'')"
    by (simp add: refused_driver_def)
  have n: "connect null_driver ?a True 60 = Inr None"
    by (simp add: null_driver_def)
  have f: "connect armed_fails_driver ?a True 60 = Inr (Some 1) \<and>
           mode_name armed_fails_driver 1 = Inr ''GUIDED'' \<and>
           armed armed_fails_driver 1 = Inl (Exn APIException ''No heartbeat'')"
    by (simp add: armed_fails_driver_def sitl_driver_def mode_name_def)
  have g: "connect no_mode_driver ?a True 60 = Inr (Some 1) \<and> mode no_mode_driver 1 = Inr None"
    by (simp add: no_mode_driver_def sitl_driver_def)
  from connect_failure_outcomes [OF a, where drv = timeout_driver and m = "''timed out''"
         and req = empty_request] t
  have 1: "snd (connect_drone timeout_driver empty_request init_state) =
     (init_state, error_message ''Connection timed out after 60 seconds.'')"
    by simp
  from connect_failure_outcomes [OF a, where drv = api_error_driver and m = "''No heartbeat''"
         and req = empty_request] p
  have 2: "snd (connect_drone api_error_driver empty_request init_state) =
     (init_state, error_message ''DroneKit API Error: No heartbeat'')"
    by simp
  from connect_failure_outcomes [OF a, where drv = refused_driver
         and m = "''Connection refused''" and req = empty_request] r
  have 3: "snd (connect_drone refused_driver empty_request init_state) =
     (init_state, error_message ''Unexpected Error: Connection refused'')"
    by simp
  from connect_failure_outcomes [OF a, where drv = null_driver and req = empty_request] n
  have 4: "snd (connect_drone null_driver empty_request init_state) =
     (init_state, error_message ''Failed to connect (vehicle object is None)'')"
    by simp
  from connect_failure_outcomes [OF a, where drv = armed_fails_driver and req = empty_request
         and v = 1 and e = "Exn APIException ''No heartbeat''" and n = "''GUIDED''"] f
  have 5: "snd (connect_drone armed_fails_driver empty_request init_state) =
     (init_state, error_message ''DroneKit API Error: No heartbeat'')"
    by simp
  from connect_failure_outcomes [OF a, where drv = no_mode_driver and req = empty_request
         and v = 1] g
  have 6: "snd (connect_drone no_mode_driver empty_request init_state) =
     (init_state, error_message (''Unexpected Error: '' @ str_exn (attribute_error ''name'')))"
    by simp
  then have d: "snd (snd (connect_drone no_mode_driver empty_request init_state)) \<noteq>
             success_message ''Connected to Vehicle''"
    by (simp add: success_message_def error_message_def jsonify_def)
  from connect_failure_outcomes [OF a, where drv = no_mode_driver and req = empty_request] d
  have 7: "fst (snd (connect_drone no_mode_driver empty_request init_state)) = init_state"
    by simp
  from a 1 2 3 4 5 6 d 7 show ?thesis by blast
qed

subsection \<open>The address\<close>

text \<open>
  C7, as the claim states it, fails: a request that carries the address
  "not-a-valid-address" is served like any other. The session is opened at
  \<open>connection_string\<close> and the vehicle is stored.
\<close>

theorem connect_ignores_malformed_address:
  "connect_drone sitl_driver malformed_request init_state =
     ([Log INFO [PStr ''Attempting connection to '', PStr ''udp:127.0.0.1:14550'', PStr ''...''],
       DriverConnect ''udp:127.0.0.1:14550'' True 60,
       Log INFO [PStr ''Connection Successful!''],
       Log INFO [PStr ''  Mode: '', PStr ''GUIDED''],
       Log INFO [PStr ''  Armed: '', PBool False],
       Log INFO [PStr ''  Altitude: '', PNum 0]],
      connected_state,
      success_message ''Connected to Vehicle'')"
  by (simp add: connect_drone_def connect_begin_def connect_resume_def connect_finish_def
      connect_try_def mode_name_def frame_field_def sitl_driver_def init_state_def
      connected_state_def)

text \<open>
  C7, amended. \<open>connect_drone\<close> validates no address. From a state with no vehicle held it
  makes exactly one call \<open>connect(connection_string, wait_ready=True, timeout=60)\<close>, and
  what it does is what it does for a request without a body.
\<close>

theorem connect_attempts_whatever_the_request:
  assumes "vehicle s = None"
  shows "filter is_connect_call (fst (connect_drone drv req s)) =
           [DriverConnect (connection_string s) True 60] \<and>
         connect_drone drv req s = connect_drone drv \<lparr>json = None\<rparr> s"
proof -
  obtain l1 s1 r where f: "connect_finish drv (connect drv (connection_string s) True 60) s = (l1, s1, r)"
    by (cases "connect_finish drv (connect drv (connection_string s) True 60) s") auto
  from connect_finish_filter [of drv "connect drv (connection_string s) True 60" s] f
  have "filter is_connect_call l1 = []" by simp
  with f show ?thesis
    by (simp add: connect_drone_not_connected [OF assms])
qed

text \<open>The request with the malformed address, on the initial globals.\<close>

theorem connect_attempts_whatever_the_request_witness:
  "vehicle init_state = None \<and>
   filter is_connect_call (fst (connect_drone sitl_driver malformed_request init_state)) =
     [DriverConnect ''udp:127.0.0.1:14550'' True 60] \<and>
   connect_drone sitl_driver malformed_request init_state =
     connect_drone sitl_driver \<lparr>json = None\<rparr> init_state"
proof -
  have a: "vehicle init_state = None"
    by (simp add: init_state_def)
  have cs: "connection_string init_state = ''udp:127.0.0.1:14550''"
    by (simp add: init_state_def)
  note t = connect_attempts_whatever_the_request [OF a, of sitl_driver malformed_request, unfolded cs]
  from a t show ?thesis by blast
qed

subsection \<open>A successful connect\<close>

text \<open>
  C8, as the claim states it, fails: the response of a successful connect is the two
  entries \<open>status\<close> and \<open>message\<close>. It carries neither mode nor armed flag nor altitude,
  although the driver supplies them.
\<close>

theorem connect_response_carries_no_telemetry:
  "snd (snd (connect_drone sitl_driver empty_request init_state)) =
     (PDict [(''status'', PStr ''success''), (''message'', PStr ''Connected to Vehicle'')], 200) \<and>
   mode sitl_driver 1 = Inr (Some ''GUIDED'') \<and>
   armed sitl_driver 1 = Inr (Some False)"
  by (simp add: connect_drone_def connect_begin_def connect_resume_def connect_finish_def
      connect_try_def mode_name_def frame_field_def sitl_driver_def init_state_def
      success_message_def jsonify_def)

text \<open>
  C8, amended. From a state with no vehicle held, when the driver returns a vehicle and
  the reads of its mode name, its armed flag and its relative frame return,
  \<open>connect_drone\<close> stores the vehicle, answers "Connected to Vehicle" (status 200, no
  telemetry in the response) and writes the baseline telemetry to the log: mode name,
  armed flag, and the altitude, or "N/A" when there is no frame.
\<close>

theorem connect_success:
  assumes "vehicle s = None"
    and "connect drv (connection_string s) True 60 = Inr (Some v)"
    and "mode drv v = Inr (Some m)"
    and "armed drv v = Inr a"
    and "global_relative_frame drv v = Inr fr"
  shows "connect_drone drv req s =
     ([Log INFO [PStr ''Attempting connection to '', PStr (connection_string s), PStr ''...''],
       DriverConnect (connection_string s) True 60,
       Log INFO [PStr ''Connection Successful!''],
       Log INFO [PStr ''  Mode: '', PStr m],
       Log INFO [PStr ''  Armed: '', py_bool a],
       Log INFO [PStr ''  Altitude: '',
                 (case fr of None \<Rightarrow> PStr ''N/A'' | Some g \<Rightarrow> py_num (alt g))]],
      s\<lparr>vehicle := Some v\<rparr>,
      success_message ''Connected to Vehicle'')"
  using assms
  by (cases fr)
     (simp_all add: connect_drone_def connect_begin_def connect_resume_def connect_finish_def
        connect_try_def mode_name_def frame_field_def)

text \<open>The simulator, on the initial globals.\<close>

theorem connect_success_witness:
  "vehicle init_state = None \<and>
   connect sitl_driver (connection_string init_state) True 60 = Inr (Some 1) \<and>
   mode sitl_driver 1 = Inr (Some ''GUIDED'') \<and>
   armed sitl_driver 1 = Inr (Some False) \<and>
   global_relative_frame sitl_driver 1 = Inr (Some \<lparr>lat = Some (-35), lon = Some 149, alt = Some 0\<rparr>) \<and>
   connect_drone sitl_driver empty_request init_state =
     ([Log INFO [PStr ''Attempting connection to '', PStr ''udp:127.0.0.1:14550'', PStr ''...''],
       DriverConnect ''udp:127.0.0.1:14550'' True 60,
       Log INFO [PStr ''Connection Successful!''],
       Log INFO [PStr ''  Mode: '', PStr ''GUIDED''],
       Log INFO [PStr ''  Armed: '', PBool False],
       Log INFO [PStr ''  Altitude: '', PNum 0]],
      connected_state,
      success_message ''Connected to Vehicle'')"
proof -
  have a: "vehicle init_state = None"
    by (simp add: init_state_def)
  have b: "connect sitl_driver (connection_string init_state) True 60 = Inr (Some 1)"
    by (simp add: sitl_driver_def)
  have c: "mode sitl_driver 1 = Inr (Some ''GUIDED'')"
    by (simp add: sitl_driver_def)
  have d: "armed sitl_driver 1 = Inr (Some False)"
    by (simp add: sitl_driver_def)
  have e: "global_relative_frame sitl_driver 1 =
             Inr (Some \<lparr>lat = Some (-35), lon = Some 149, alt = Some 0\<rparr>)"
    by (simp add: sitl_driver_def)
  from connect_success [OF a b c d e, of empty_request] a b c d e
  show ?thesis
    by (simp add: init_state_def connected_state_def)
qed

subsection \<open>The request\<close>

lemma step_connection_string:
  "connection_string (fst (snd (step drv c s))) = connection_string s"
proof (cases c)
  case Index
  then show ?thesis by (simp add: index_def)
next
  case (Connect req)
  show ?thesis
  proof (cases "vehicle s")
    case None
    with connect_finish_result [of "connect drv (connection_string s) True 60" drv s]
    show ?thesis
      by (auto simp: Connect connect_drone_not_connected)
  next
    case (Some v)
    then show ?thesis
      by (simp add: Connect connect_drone_def connect_begin_def connect_resume_def)
  qed
next
  case Disconnect
  then show ?thesis
    by (simp add: disconnect_drone_def split: option.splits)
next
  case Status
  then show ?thesis
    by (simp add: get_status_def split: option.splits sum.splits)
qed

lemma connect_drone_calls:
  assumes "e \<in> set (fst (connect_drone drv req s))" and "is_connect_call e"
  shows "e = DriverConnect (connection_string s) True 60"
proof (cases "vehicle s")
  case None
  obtain l1 s1 r where f: "connect_finish drv (connect drv (connection_string s) True 60) s = (l1, s1, r)"
    by (cases "connect_finish drv (connect drv (connection_string s) True 60) s") auto
  from connect_finish_no_call [of e drv "connect drv (connection_string s) True 60" s] f assms
  show ?thesis
    by (auto simp: connect_drone_not_connected [OF None])
next
  case (Some v)
  with assms show ?thesis
    by (simp add: connect_drone_def connect_begin_def connect_resume_def)
qed

lemma step_calls:
  assumes "e \<in> set (fst (step drv c s))" and "is_connect_call e"
  shows "e = DriverConnect (connection_string s) True 60"
proof (cases c)
  case Index
  with assms show ?thesis by (simp add: index_def)
next
  case (Connect req)
  with assms connect_drone_calls [of e drv req s] show ?thesis
    by (auto split: prod.splits)
next
  case Disconnect
  with assms show ?thesis
    by (auto simp: disconnect_drone_def split: option.splits)
next
  case Status
  with assms show ?thesis
    by (auto simp: get_status_def split: option.splits sum.splits)
qed

lemma run_calls:
  "e \<in> set (fst (run cs s)) \<Longrightarrow> is_connect_call e \<Longrightarrow>
   e = DriverConnect (connection_string s) True 60"
proof (induction cs arbitrary: s)
  case Nil
  then show ?case by simp
next
  case (Cons dc cs)
  obtain drv c where dc: "dc = (drv, c)" by (cases dc)
  obtain l s' r where st: "step drv c s = (l, s', r)" by (cases "step drv c s") auto
  obtain l' s'' where rn: "run cs s' = (l', s'')" by (cases "run cs s'")
  from st step_connection_string [of drv c s]
  have cs': "connection_string s' = connection_string s" by simp
  from Cons.prems(1) dc st rn have "e \<in> set l \<or> e \<in> set l'" by simp
  then show ?case
  proof
    assume "e \<in> set l"
    with st step_calls [of e drv c s] Cons.prems(2) show ?thesis by simp
  next
    assume "e \<in> set l'"
    with rn Cons.IH [of s'] Cons.prems(2) cs' show ?thesis by simp
  qed
qed

text \<open>
  C9. \<open>connect_drone\<close> does not depend on the request: two requests served on the same
  globals, with the driver behaving the same, give the same effects, globals and
  response. And in every sequence of requests from the initial globals, whatever the
  driver does, every call \<open>connect(...)\<close> is made with the address
  \<open>udp:127.0.0.1:14550\<close>, \<open>wait_ready=True\<close> and \<open>timeout=60\<close>.
\<close>

theorem connect_independent_of_request:
  "connect_drone drv req s = connect_drone drv req' s \<and>
   (\<forall>e \<in> set (fst (run cs init_state)).
      is_connect_call e \<longrightarrow> e = DriverConnect ''udp:127.0.0.1:14550'' True 60)"
proof -
  have "connection_string init_state = ''udp:127.0.0.1:14550''"
    by (simp add: init_state_def)
  with run_calls [of _ cs init_state] show ?thesis
    by (auto simp: connect_drone_def)
qed

text \<open>
  Two connect requests with different bodies, the first timing out: both calls go to the
  fixed address.
\<close>

theorem connect_independent_of_request_witness:
  "connect_drone sitl_driver malformed_request init_state =
     connect_drone sitl_driver empty_request init_state \<and>
   DriverConnect ''udp:127.0.0.1:14550'' True 60 \<in>
     set (fst (run [(timeout_driver, Connect malformed_request),
                    (sitl_driver, Connect empty_request)] init_state)) \<and>
   filter is_connect_call
     (fst (run [(timeout_driver, Connect malformed_request),
                (sitl_driver, Connect empty_request)] init_state)) =
     [DriverConnect ''udp:127.0.0.1:14550'' True 60, DriverConnect ''udp:127.0.0.1:14550'' True 60]"
proof -
  let ?cs = "[(timeout_driver, Connect malformed_request), (sitl_driver, Connect empty_request)]"
  note t = connect_independent_of_request
             [of sitl_driver malformed_request init_state empty_request ?cs]
  have r: "fst (run ?cs init_state) =
     [Log INFO [PStr ''Attempting connection to '', PStr ''udp:127.0.0.1:14550'', PStr ''...''],
      DriverConnect ''udp:127.0.0.1:14550'' True 60,
      Log ERROR [PStr ''Connection timed out: '', PStr ''timed out''],
      Log INFO [PStr ''Attempting connection to '', PStr ''udp:127.0.0.1:14550'', PStr ''...''],
      DriverConnect ''udp:127.0.0.1:14550'' True 60,
      Log INFO [PStr ''Connection Successful!''],
      Log INFO [PStr ''  Mode: '', PStr ''GUIDED''],
      Log INFO [PStr ''  Armed: '', PBool False],
      Log INFO [PStr ''  Altitude: '', PNum 0]]"
    by (simp add: connect_drone_def connect_begin_def connect_resume_def connect_finish_def
        connect_try_def mode_name_def frame_field_def timeout_driver_def sitl_driver_def
        init_state_def)
  from t have 1: "connect_drone sitl_driver malformed_request init_state =
     connect_drone sitl_driver empty_request init_state" by blast
  from r have 2: "DriverConnect ''udp:127.0.0.1:14550'' True 60 \<in> set (fst (run ?cs init_state))"
    by simp
  from r have 3: "filter is_connect_call (fst (run ?cs init_state)) =
     [DriverConnect ''udp:127.0.0.1:14550'' True 60, DriverConnect ''udp:127.0.0.1:14550'' True 60]"
    by simp
  from 1 2 3 show ?thesis by blast
qed

subsection \<open>Status\<close>

lemma get_status_state: "fst (snd (get_status drv s)) = s"
  by (simp add: get_status_def split: option.splits sum.splits)

lemma isl_bind_exn: "isl (bind_exn x f) = (isl x \<or> isl (f (projr x)))"
  by (cases x) simp_all

lemma status_dict_raises:
  assumes "isl (mode_name drv v) \<or> isl (armed drv v) \<or> isl (global_relative_frame drv v) \<or>
           isl (airspeed drv v) \<or> isl (groundspeed drv v) \<or> isl (heading drv v) \<or>
           isl (battery drv v)"
  shows "isl (status_dict drv v)"
proof -
  have ff: "\<And>f d. isl (frame_field drv v f d) = isl (global_relative_frame drv v)"
    by (cases "global_relative_frame drv v") (auto simp: frame_field_def split: option.splits)
  have bv: "isl (battery_voltage drv v) = isl (battery drv v)"
    by (cases "battery drv v") (auto simp: battery_voltage_def split: option.splits)
  from assms show ?thesis
    by (auto simp: status_dict_def isl_bind_exn ff bv)
qed

lemma status_raised:
  "vehicle s = Some v \<Longrightarrow> status_dict drv v = Inl e \<Longrightarrow>
   get_status drv s =
     ([Log ERROR [PStr ''Error fetching status: '', PStr (str_exn e)]], s,
      error_message (''Error fetching status: '' @ str_exn e))"
  by (simp add: get_status_def)

lemma step_keeps_vehicle:
  assumes "vehicle s = Some v" and "c \<noteq> Disconnect"
  shows "vehicle (fst (snd (step drv c s))) = Some v"
proof (cases c)
  case Index
  with assms show ?thesis by (simp add: index_def)
next
  case (Connect req)
  with assms show ?thesis
    by (simp add: connect_drone_def connect_begin_def connect_resume_def)
next
  case Disconnect
  with assms show ?thesis by simp
next
  case Status
  obtain l s' r where g: "get_status drv s = (l, s', r)"
    by (cases "get_status drv s") auto
  with get_status_state [of drv s] have "s' = s" by simp
  with assms g Status show ?thesis by simp
qed

lemma run_keeps_vehicle:
  "vehicle s = Some v \<Longrightarrow> \<forall>dc \<in> set cs. snd dc \<noteq> Disconnect \<Longrightarrow>
   vehicle (snd (run cs s)) = Some v"
proof (induction cs arbitrary: s)
  case Nil
  then show ?case by simp
next
  case (Cons dc cs)
  obtain drv c where dc: "dc = (drv, c)" by (cases dc)
  obtain l s' r where st: "step drv c s = (l, s', r)" by (cases "step drv c s") auto
  from Cons.prems dc have "c \<noteq> Disconnect" by simp
  with step_keeps_vehicle [of s v c drv] Cons.prems(1) st have "vehicle s' = Some v" by simp
  with Cons.IH [of s'] Cons.prems(2) have k: "vehicle (snd (run cs s')) = Some v" by simp
  obtain l' s'' where rn: "run cs s' = (l', s'')" by (cases "run cs s'")
  with k dc st show ?case by simp
qed

text \<open>
  C4. With a vehicle held, when a read of the telemetry raises, \<open>get_status\<close> logs the
  error and answers with the error response "Error fetching status: ..." (status 500).
  The globals are unchanged, the vehicle is still held, and it stays held over every
  further sequence of requests that contains no disconnect.
\<close>

theorem status_query_raises:
  assumes "vehicle s = Some v"
    and "isl (mode_name drv v) \<or> isl (armed drv v) \<or> isl (global_relative_frame drv v) \<or>
         isl (airspeed drv v) \<or> isl (groundspeed drv v) \<or> isl (heading drv v) \<or>
         isl (battery drv v)"
  shows "(\<exists>e. get_status drv s =
            ([Log ERROR [PStr ''Error fetching status: '', PStr (str_exn e)]], s,
             error_message (''Error fetching status: '' @ str_exn e))) \<and>
         vehicle (fst (snd (get_status drv s))) = Some v \<and>
         ((\<forall>dc \<in> set cs. snd dc \<noteq> Disconnect) \<longrightarrow>
            vehicle (snd (run cs (fst (snd (get_status drv s))))) = Some v)"
proof -
  from assms(2) have "isl (status_dict drv v)" by (rule status_dict_raises)
  then obtain e where "status_dict drv v = Inl e" by (cases "status_dict drv v") auto
  with assms(1) have 1: "\<exists>e. get_status drv s =
            ([Log ERROR [PStr ''Error fetching status: '', PStr (str_exn e)]], s,
             error_message (''Error fetching status: '' @ str_exn e))"
    using status_raised by blast
  have 2: "fst (snd (get_status drv s)) = s" by (rule get_status_state)
  from 1 2 assms(1) run_keeps_vehicle [of s v cs] show ?thesis by simp
qed

text \<open>A vehicle whose airspeed cannot be read because the link is lost.\<close>

theorem status_query_raises_witness:
  "vehicle connected_state = Some 1 \<and>
   isl (airspeed link_lost_driver 1) \<and>
   get_status link_lost_driver connected_state =
     ([Log ERROR [PStr ''Error fetching status: '', PStr ''link lost'']], connected_state,
      error_message ''Error fetching status: link lost'') \<and>
   vehicle (snd (run [(link_lost_driver, Status), (sitl_driver, Connect empty_request)]
                   (fst (snd (get_status link_lost_driver connected_state))))) = Some 1"
proof -
  let ?cs = "[(link_lost_driver, Status), (sitl_driver, Connect empty_request)]"
  have a: "vehicle connected_state = Some 1"
    by (simp add: connected_state_def)
  have b: "isl (airspeed link_lost_driver 1)"
    by (simp add: link_lost_driver_def)
  have c: "\<forall>dc \<in> set ?cs. snd dc \<noteq> Disconnect"
    by simp
  have d: "get_status link_lost_driver connected_state =
     ([Log ERROR [PStr ''Error fetching status: '', PStr ''link lost'']], connected_state,
      error_message ''Error fetching status: link lost'')"
    by (simp add: get_status_def status_dict_def mode_name_def frame_field_def
        link_lost_driver_def sitl_driver_def connected_state_def)
  from b have b': "isl (mode_name link_lost_driver 1) \<or> isl (armed link_lost_driver 1) \<or>
     isl (global_relative_frame link_lost_driver 1) \<or> isl (airspeed link_lost_driver 1) \<or>
     isl (groundspeed link_lost_driver 1) \<or> isl (heading link_lost_driver 1) \<or>
     isl (battery link_lost_driver 1)" by blast
  from status_query_raises [OF a b', of ?cs] c
  have "vehicle (snd (run ?cs (fst (snd (get_status link_lost_driver connected_state))))) = Some 1"
    by blast
  with a b d show ?thesis by blast
qed

text \<open>
  C3, as the claim states it, fails: when the driver cannot supply the mode
  (\<open>vehicle.mode\<close> is \<open>None\<close>), the mode does not default to absent. \<open>vehicle.mode.name\<close>
  raises and the whole call ends in the error response.
\<close>

theorem status_fails_without_mode:
  "get_status no_mode_driver connected_state =
     ([Log ERROR [PStr ''Error fetching status: '', PStr (str_exn (attribute_error ''name''))]],
      connected_state,
      (PDict [(''status'', PStr ''error''),
              (''message'', PStr (''Error fetching status: '' @ str_exn (attribute_error ''name'')))],
       500)) \<and>
   mode no_mode_driver 1 = Inr None"
  by (simp add: get_status_def status_dict_def mode_name_def no_mode_driver_def sitl_driver_def
      connected_state_def error_message_def)

text \<open>
  C3, amended. With a vehicle held and every read returning, the snapshot has one entry
  for each field, computed from that field's attribute alone. The armed flag, the
  airspeed, the groundspeed and the heading are passed on, \<open>None\<close> included; latitude,
  longitude and altitude are \<open>None\<close> when there is no relative frame; the battery voltage
  is \<open>None\<close> when there is no battery. The mode is the exception: it must be there, and
  when it is \<open>None\<close> the call ends in the error response.
\<close>

theorem status_fields:
  assumes "vehicle s = Some v"
    and "armed drv v = Inr a"
    and "global_relative_frame drv v = Inr fr"
    and "airspeed drv v = Inr asp"
    and "groundspeed drv v = Inr gs"
    and "heading drv v = Inr hdg"
    and "battery drv v = Inr b"
  shows
    "(mode drv v = Inr (Some m) \<longrightarrow>
        get_status drv s =
          ([], s,
           success_data (PDict
             [(''is_connected'', PBool True),
              (''mode'', PStr m),
              (''armed'', py_bool a),
              (''lat'', case fr of None \<Rightarrow> PNone | Some g \<Rightarrow> py_num (lat g)),
              (''lon'', case fr of None \<Rightarrow> PNone | Some g \<Rightarrow> py_num (lon g)),
              (''alt'', case fr of None \<Rightarrow> PNone | Some g \<Rightarrow> py_num (alt g)),
              (''airspeed'', py_num asp),
              (''groundspeed'', py_num gs),
              (''heading'', py_num hdg),
              (''battery_voltage'', case b of None \<Rightarrow> PNone | Some i \<Rightarrow> py_num (voltage i))]))) \<and>
     (mode drv v = Inr None \<longrightarrow>
        get_status drv s =
          ([Log ERROR [PStr ''Error fetching status: '', PStr (str_exn (attribute_error ''name''))]],
           s,
           error_message (''Error fetching status: '' @ str_exn (attribute_error ''name''))))"
proof -
  from assms(3) have ff: "\<And>f. frame_field drv v f PNone =
      Inr (case fr of None \<Rightarrow> PNone | Some g \<Rightarrow> py_num (f g))"
    by (simp add: frame_field_def split: option.splits)
  from assms(7) have bv: "battery_voltage drv v =
      Inr (case b of None \<Rightarrow> PNone | Some i \<Rightarrow> py_num (voltage i))"
    by (simp add: battery_voltage_def split: option.splits)
  from assms(1,2,4,5,6) ff bv show ?thesis
    by (simp add: get_status_def status_dict_def mode_name_def)
qed

text \<open>A vehicle without position, airspeed and battery, and a vehicle without mode.\<close>

theorem status_fields_witness:
  "vehicle connected_state = Some 1 \<and>
   mode no_gps_driver 1 = Inr (Some ''GUIDED'') \<and>
   global_relative_frame no_gps_driver 1 = Inr None \<and>
   get_status no_gps_driver connected_state =
     ([], connected_state,
      success_data (PDict
        [(''is_connected'', PBool True),
         (''mode'', PStr ''GUIDED''),
         (''armed'', PBool False),
         (''lat'', PNone),
         (''lon'', PNone),
         (''alt'', PNone),
         (''airspeed'', PNone),
         (''groundspeed'', PNum 0),
         (''heading'', PNum 353),
         (''battery_voltage'', PNone)])) \<and>
   mode no_mode_driver 1 = Inr None \<and>
   get_status no_mode_driver connected_state =
     ([Log ERROR [PStr ''Error fetching status: '', PStr (str_exn (attribute_error ''name''))]],
      connected_state,
      error_message (''Error fetching status: '' @ str_exn (attribute_error ''name'')))"
proof -
  have a: "vehicle connected_state = Some 1"
    by (simp add: connected_state_def)
  have g1: "armed no_gps_driver 1 = Inr (Some False)"
    and g2: "global_relative_frame no_gps_driver 1 = Inr None"
    and g3: "airspeed no_gps_driver 1 = Inr None"
    and g4: "groundspeed no_gps_driver 1 = Inr (Some 0)"
    and g5: "heading no_gps_driver 1 = Inr (Some 353)"
    and g6: "battery no_gps_driver 1 = Inr None"
    and g7: "mode no_gps_driver 1 = Inr (Some ''GUIDED'')"
    by (simp_all add: no_gps_driver_def sitl_driver_def)
  have m1: "armed no_mode_driver 1 = Inr (Some False)"
    and m2: "global_relative_frame no_mode_driver 1 =
               Inr (Some \<lparr>lat = Some (-35), lon = Some 149, alt = Some 0\<rparr>)"
    and m3: "airspeed no_mode_driver 1 = Inr (Some 0)"
    and m4: "groundspeed no_mode_driver 1 = Inr (Some 0)"
    and m5: "heading no_mode_driver 1 = Inr (Some 353)"
    and m6: "battery no_mode_driver 1 = Inr (Some \<lparr>voltage = Some 12\<rparr>)"
    and m7: "mode no_mode_driver 1 = Inr None"
    by (simp_all add: no_mode_driver_def sitl_driver_def)
  from status_fields [OF a g1 g2 g3 g4 g5 g6, of "''GUIDED''"] g7
  have 1: "get_status no_gps_driver connected_state =
     ([], connected_state,
      success_data (PDict
        [(''is_connected'', PBool True),
         (''mode'', PStr ''GUIDED''),
         (''armed'', PBool False),
         (''lat'', PNone),
         (''lon'', PNone),
         (''alt'', PNone),
         (''airspeed'', PNone),
         (''groundspeed'', PNum 0),
         (''heading'', PNum 353),
         (''battery_voltage'', PNone)]))"
    by simp
  from status_fields [OF a m1 m2 m3 m4 m5 m6, of "''''"] m7
  have 2: "get_status no_mode_driver connected_state =
     ([Log ERROR [PStr ''Error fetching status: '', PStr (str_exn (attribute_error ''name''))]],
      connected_state,
      error_message (''Error fetching status: '' @ str_exn (attribute_error ''name'')))"
    by simp
  from a g7 g2 1 m7 2 show ?thesis by blast
qed

subsection \<open>A connect request during another\<close>

text \<open>
  A request that runs alone takes at most seven steps, and they are \<open>connect_drone\<close>.
\<close>

lemma connect_steps_alone:
  "run_schedule drv drv' [True, True, True, True, True, True, True] ([], s, At35, pb) =
     (case connect_drone drv req s of (l, s', r) \<Rightarrow> (l, s', Done r, pb))"
  by (auto simp: connect_drone_def connect_begin_def connect_resume_def connect_finish_def
      connect_try_def frame_field_def Let_def
      split: option.splits sum.splits prod.splits)






end
